theory Spec2Isabelle
  imports Complex_Main
begin

section \<open>The event model (normalizer.py)\<close>

text \<open>
  The pipeline works on one canonical event type. The record below carries the fields
  that the burst detectors, the confidence scorer and the correlator read or write.
  The fields that no decision of these components depends on (schema versions,
  timestamp, hostname, workspace id, external reference, task status, iteration,
  artifact data, summary text, model name and the raw payload) are left out.

  Modelling conventions used throughout:
  \<^item> Python floats (clock readings, durations, confidences) are modelled as exact
    reals, so \<open>0.2\<close> is the number one fifth; binary rounding is not modelled.
  \<^item> Every reading of \<open>time.monotonic()\<close> is an explicit argument of the operation
    that performs it.
  \<^item> Every \<open>uuid.uuid4()\<close> is an explicit argument as well.
  \<^item> In-place mutation of an event or of a component is modelled by returning the
    updated value.
  \<^item> The windows of the components hold event values; in the source they hold
    references, so a later mutation of a recorded event would be visible through
    the window. None of the operations below reads a field through a window after a
    mutation that it performed itself.
\<close>

record FileChange =
  path :: string
  change_type :: string
  size_bytes :: "int option"

record WorkflowEvent =
  event_id :: string
  source :: string
  event_type :: string
  confidence :: real
  task_id :: "string option"
  task_title :: "string option"
  tokens_prompt :: "int option"
  tokens_completion :: "int option"
  burst_id :: "string option"
  burst_token_total :: "int option"
  burst_duration_secs :: "real option"
  burst_entry_count :: "int option"
  files_changed :: "FileChange list option"
  workspace_root :: "string option"
  git_commit_sha :: "string option"
  git_branch :: "string option"
  correlated_events :: "string list option"
  correlation_type :: "string option"

text \<open>The closed taxonomy of event kinds: string constants of class \<open>EventType\<close>.\<close>

abbreviation COPILOT_COMPLETION :: string where "COPILOT_COMPLETION \<equiv> ''copilot.completion''"
abbreviation COPILOT_BURST_START :: string where "COPILOT_BURST_START \<equiv> ''copilot.burst_start''"
abbreviation COPILOT_BURST_END :: string where "COPILOT_BURST_END \<equiv> ''copilot.burst_end''"
abbreviation AG_TASK_CREATED :: string where "AG_TASK_CREATED \<equiv> ''antigravity.task.created''"
abbreviation AG_TASK_COMPLETED :: string where "AG_TASK_COMPLETED \<equiv> ''antigravity.task.completed''"
abbreviation AG_TASK_FAILED :: string where "AG_TASK_FAILED \<equiv> ''antigravity.task.failed''"
abbreviation AG_TASK_WALKTHROUGH :: string where
  "AG_TASK_WALKTHROUGH \<equiv> ''antigravity.task.walkthrough_added''"
abbreviation AG_TASK_PLAN_READY :: string where "AG_TASK_PLAN_READY \<equiv> ''antigravity.task.plan_ready''"
abbreviation AG_ARTIFACT_UNKNOWN :: string where
  "AG_ARTIFACT_UNKNOWN \<equiv> ''antigravity.artifact.unknown''"
abbreviation GIT_COMMIT :: string where "GIT_COMMIT \<equiv> ''git.commit''"
abbreviation GIT_COMMIT_LINKED :: string where "GIT_COMMIT_LINKED \<equiv> ''git.commit_linked_to_task''"
abbreviation FS_BATCH_MODIFIED :: string where "FS_BATCH_MODIFIED \<equiv> ''filesystem.batch_modified''"
abbreviation WORKFLOW_ACTIVITY_CLUSTERED :: string where
  "WORKFLOW_ACTIVITY_CLUSTERED \<equiv> ''workflow.activity_clustered''"

text \<open>
  \<open>WorkflowEvent.make(source, event_type, **kwargs)\<close>: a fresh id, the given source and
  kind, and the dataclass default of every other field. The keyword arguments of a call
  site are applied as record updates on the result.
\<close>

definition make_event :: "string \<Rightarrow> string \<Rightarrow> string \<Rightarrow> WorkflowEvent" where
  "make_event uid src ety =
     \<lparr> event_id = uid, source = src, event_type = ety, confidence = 0,
       task_id = None, task_title = None, tokens_prompt = None, tokens_completion = None,
       burst_id = None, burst_token_total = None, burst_duration_secs = None,
       burst_entry_count = None, files_changed = None, workspace_root = None,
       git_commit_sha = None, git_branch = None, correlated_events = None,
       correlation_type = None \<rparr>"

text \<open>
  Python truthiness of an optional string or list: \<open>None\<close> and the empty value are
  false. Truthiness of an optional integer in \<open>x or 0\<close>: \<open>None\<close> and \<open>0\<close> both give 0.
\<close>

fun truthy :: "'a list option \<Rightarrow> bool" where
  "truthy None = False"
| "truthy (Some xs) = (xs \<noteq> [])"

fun or0 :: "int option \<Rightarrow> int" where
  "or0 None = 0"
| "or0 (Some n) = n"

text \<open>\<open>start or now\<close> on an optional float: \<open>None\<close> and \<open>0.0\<close> are false.\<close>

fun or_now :: "real option \<Rightarrow> real \<Rightarrow> real" where
  "or_now None now = now"
| "or_now (Some t) now = (if t = 0 then now else t)"

text \<open>\<open>round(x, 1)\<close>: to one decimal, ties to the even digit.\<close>

definition round1 :: "real \<Rightarrow> real" where
  "round1 x =
     (let y = x * 10; f = \<lfloor>y\<rfloor>; r = y - of_int f
      in (if r < 1 / 2 then of_int f
          else if r > 1 / 2 then of_int (f + 1)
          else if even f then of_int f else of_int (f + 1)) / 10)"

text \<open>
  The eviction loop shared by every window:
  \<open>while window and (now - window[0][0]) > max_age: window.popleft()\<close>.
\<close>

fun evict :: "real \<Rightarrow> real \<Rightarrow> (real \<times> 'a) list \<Rightarrow> (real \<times> 'a) list" where
  "evict now max_age [] = []"
| "evict now max_age ((t, x) # w) =
     (if now - t > max_age then evict now max_age w else (t, x) # w)"


section \<open>Burst detectors (burst\_detector.py)\<close>

subsection \<open>FileBurstDetector\<close>

record FileBurstDetector =
  fb_window_secs :: real
  fb_threshold :: int
  fb_recent :: "(real \<times> string) list"

definition FileBurstDetector_init :: "real \<Rightarrow> int \<Rightarrow> FileBurstDetector" where
  "FileBurstDetector_init w th = \<lparr> fb_window_secs = w, fb_threshold = th, fb_recent = [] \<rparr>"

definition fb_event :: "string \<Rightarrow> string \<Rightarrow> string list \<Rightarrow> WorkflowEvent" where
  "fb_event uid ws paths_in_window =
     (make_event uid ''filesystem'' FS_BATCH_MODIFIED)
       \<lparr> workspace_root := Some ws,
         files_changed :=
           Some (map (\<lambda>p. \<lparr> path = p, change_type = ''modified'', size_bytes = None \<rparr>)
                  paths_in_window),
         confidence := 0.4 \<rparr>"

definition FileBurst_observe ::
  "real \<Rightarrow> string \<Rightarrow> string \<Rightarrow> string \<Rightarrow> FileBurstDetector
     \<Rightarrow> WorkflowEvent option \<times> FileBurstDetector" where
  "FileBurst_observe now uid p ws d =
     (let q = evict now (fb_window_secs d) (fb_recent d @ [(now, p)])
      in if int (length q) \<ge> fb_threshold d
         then (Some (fb_event uid ws (map snd q)), d\<lparr>fb_recent := []\<rparr>)
         else (None, d\<lparr>fb_recent := q\<rparr>))"

text \<open>A run of observations; each carries its clock reading, fresh id, path and root.\<close>

fun FileBurst_run ::
  "(real \<times> string \<times> string \<times> string) list \<Rightarrow> FileBurstDetector
     \<Rightarrow> WorkflowEvent option list \<times> FileBurstDetector" where
  "FileBurst_run [] d = ([], d)"
| "FileBurst_run ((now, uid, p, ws) # obs) d =
     (case FileBurst_observe now uid p ws d of
        (r, d') \<Rightarrow> (case FileBurst_run obs d' of (rs, d'') \<Rightarrow> (r # rs, d'')))"

subsection \<open>CopilotBurstDetector\<close>

record CopilotBurstDetector =
  cb_window_secs :: real
  cb_token_threshold :: int
  cb_count_threshold :: int
  cb_window :: "(real \<times> int \<times> int \<times> string) list"
  cb_active_burst_id :: "string option"
  cb_burst_start_time :: "real option"
  cb_burst_token_total :: int
  cb_burst_entry_count :: int

definition CopilotBurstDetector_init :: "real \<Rightarrow> int \<Rightarrow> int \<Rightarrow> CopilotBurstDetector" where
  "CopilotBurstDetector_init w tt ct =
     \<lparr> cb_window_secs = w, cb_token_threshold = tt, cb_count_threshold = ct,
       cb_window = [], cb_active_burst_id = None, cb_burst_start_time = None,
       cb_burst_token_total = 0, cb_burst_entry_count = 0 \<rparr>"

definition window_tokens :: "(real \<times> int \<times> int \<times> string) list \<Rightarrow> int" where
  "window_tokens w = sum_list (map (\<lambda>(_, tp, tc, _). tp + tc) w)"

definition window_count :: "(real \<times> int \<times> int \<times> string) list \<Rightarrow> int" where
  "window_count w = int (length w)"

definition is_in_burst :: "CopilotBurstDetector \<Rightarrow> bool" where
  "is_in_burst d = (cb_active_burst_id d \<noteq> None)"

definition burst_start_event :: "string \<Rightarrow> string \<Rightarrow> int \<Rightarrow> int \<Rightarrow> WorkflowEvent" where
  "burst_start_event uid bid toks cnt =
     (make_event uid ''copilot'' COPILOT_BURST_START)
       \<lparr> burst_id := Some bid, burst_token_total := Some toks,
         burst_entry_count := Some cnt, confidence := 0.4 \<rparr>"

definition burst_end_event ::
  "string \<Rightarrow> string option \<Rightarrow> int \<Rightarrow> real \<Rightarrow> int \<Rightarrow> WorkflowEvent" where
  "burst_end_event uid bid toks duration cnt =
     (make_event uid ''copilot'' COPILOT_BURST_END)
       \<lparr> burst_id := bid, burst_token_total := Some toks,
         burst_duration_secs := Some (round1 duration),
         burst_entry_count := Some cnt, confidence := 0.4 \<rparr>"

text \<open>
  The three-way branch of \<open>observe\<close> on the trigger condition and the burst id. The
  window has been extended and evicted already; \<open>bid\<close> is the id minted for a new
  burst and \<open>uid\<close> the id of the derived event.
\<close>

definition observe_transition ::
  "real \<Rightarrow> string \<Rightarrow> string \<Rightarrow> CopilotBurstDetector \<Rightarrow> WorkflowEvent list \<times> CopilotBurstDetector" where
  "observe_transition now bid uid d =
     (let toks = window_tokens (cb_window d);
          cnt = window_count (cb_window d);
          in_burst = (toks \<ge> cb_token_threshold d \<or> cnt \<ge> cb_count_threshold d)
      in if in_burst \<and> cb_active_burst_id d = None then
           ([burst_start_event uid bid toks cnt],
            d\<lparr> cb_active_burst_id := Some bid, cb_burst_start_time := Some now,
               cb_burst_token_total := toks, cb_burst_entry_count := cnt \<rparr>)
         else if in_burst \<and> cb_active_burst_id d \<noteq> None then
           ([], d\<lparr> cb_burst_token_total := toks, cb_burst_entry_count := cnt \<rparr>)
         else if \<not> in_burst \<and> cb_active_burst_id d \<noteq> None then
           ([burst_end_event uid (cb_active_burst_id d) (cb_burst_token_total d)
               (now - or_now (cb_burst_start_time d) now) (cb_burst_entry_count d)],
            d\<lparr> cb_active_burst_id := None, cb_burst_start_time := None,
               cb_burst_token_total := 0, cb_burst_entry_count := 0 \<rparr>)
         else ([], d))"

definition annotate :: "CopilotBurstDetector \<Rightarrow> WorkflowEvent \<Rightarrow> WorkflowEvent" where
  "annotate d event =
     (if truthy (cb_active_burst_id d)
      then event\<lparr> burst_id := cb_active_burst_id d,
                  burst_token_total := Some (cb_burst_token_total d),
                  burst_entry_count := Some (cb_burst_entry_count d) \<rparr>
      else event)"

definition CopilotBurst_observe ::
  "real \<Rightarrow> string \<Rightarrow> string \<Rightarrow> WorkflowEvent \<Rightarrow> CopilotBurstDetector
     \<Rightarrow> WorkflowEvent list \<times> WorkflowEvent \<times> CopilotBurstDetector" where
  "CopilotBurst_observe now bid uid event d =
     (let entry = (now, or0 (tokens_prompt event), or0 (tokens_completion event), event_id event);
          d1 = d\<lparr> cb_window := evict now (cb_window_secs d) (cb_window d @ [entry]) \<rparr>
      in case observe_transition now bid uid d1 of
           (emitted, d2) \<Rightarrow> (emitted, annotate d2 event, d2))"

text \<open>
  \<open>flush\<close> reads the clock once for the duration and a second time only when the start
  time is false (\<open>now0\<close>, \<open>now1\<close>).
\<close>

definition CopilotBurst_flush ::
  "real \<Rightarrow> real \<Rightarrow> string \<Rightarrow> CopilotBurstDetector \<Rightarrow> WorkflowEvent option \<times> CopilotBurstDetector" where
  "CopilotBurst_flush now0 now1 uid d =
     (if cb_active_burst_id d = None then (None, d)
      else (Some (burst_end_event uid (cb_active_burst_id d) (cb_burst_token_total d)
                    (now0 - or_now (cb_burst_start_time d) now1) (cb_burst_entry_count d)),
            d\<lparr> cb_active_burst_id := None, cb_burst_start_time := None \<rparr>))"

text \<open>
  A run of completion events through \<open>observe\<close>. Each input carries the clock reading,
  the two fresh ids and the event; the trace records, per call, the detector before the
  call, the derived events returned and the detector after the call.
\<close>

fun CopilotBurst_trace ::
  "(real \<times> string \<times> string \<times> WorkflowEvent) list \<Rightarrow> CopilotBurstDetector
     \<Rightarrow> (CopilotBurstDetector \<times> WorkflowEvent list \<times> CopilotBurstDetector) list" where
  "CopilotBurst_trace [] d = []"
| "CopilotBurst_trace ((now, bid, uid, event) # ins) d =
     (case CopilotBurst_observe now bid uid event d of
        (emitted, _, d') \<Rightarrow> (d, emitted, d') # CopilotBurst_trace ins d')"


section \<open>Confidence scorer (confidence.py)\<close>

record ConfidenceScorer =
  recent_fs :: "(real \<times> string) list"
  recent_git :: "(real \<times> string) list"
  recent_tasks :: "(real \<times> string) list"

definition ConfidenceScorer_init :: ConfidenceScorer where
  "ConfidenceScorer_init = \<lparr> recent_fs = [], recent_git = [], recent_tasks = [] \<rparr>"

abbreviation FS_PROXIMITY_SECS :: real where "FS_PROXIMITY_SECS \<equiv> 30"
abbreviation GIT_PROXIMITY_SECS :: real where "GIT_PROXIMITY_SECS \<equiv> 120"
abbreviation TASK_PROXIMITY_SECS :: real where "TASK_PROXIMITY_SECS \<equiv> 300"
abbreviation BASE :: real where "BASE \<equiv> 0.2"
abbreviation BURST_BONUS :: real where "BURST_BONUS \<equiv> 0.2"
abbreviation FS_PROXIMITY_BONUS :: real where "FS_PROXIMITY_BONUS \<equiv> 0.2"
abbreviation GIT_PROXIMITY_BONUS :: real where "GIT_PROXIMITY_BONUS \<equiv> 0.2"
abbreviation TASK_CONTEXT_BONUS :: real where "TASK_CONTEXT_BONUS \<equiv> 0.2"

definition record_signal :: "real \<Rightarrow> WorkflowEvent \<Rightarrow> ConfidenceScorer \<Rightarrow> ConfidenceScorer" where
  "record_signal now event s =
     (if source event = ''filesystem'' \<or> event_type event = FS_BATCH_MODIFIED then
        s\<lparr> recent_fs := recent_fs s @ [(now, event_id event)] \<rparr>
      else if source event = ''git'' \<or> event_type event = GIT_COMMIT then
        s\<lparr> recent_git := recent_git s @ [(now, event_id event)] \<rparr>
      else if source event = ''antigravity'' \<and> truthy (task_id event) then
        (case task_id event of
           Some tid \<Rightarrow> s\<lparr> recent_tasks := recent_tasks s @ [(now, tid)] \<rparr>
         | None \<Rightarrow> s)
      else s)"

definition score_antigravity :: "WorkflowEvent \<Rightarrow> real" where
  "score_antigravity event =
     (if event_type event = AG_TASK_COMPLETED \<or> event_type event = AG_TASK_WALKTHROUGH then 1.0
      else if event_type event = AG_TASK_CREATED \<or> event_type event = AG_TASK_PLAN_READY then 0.9
      else if event_type event = AG_TASK_FAILED then 0.9
      else if event_type event = AG_ARTIFACT_UNKNOWN then 0.3
      else 0.8)"

text \<open>
  The scoring rules evict before they look at a window, and every eviction reads the
  clock itself; \<open>clk k\<close> is the \<open>k\<close>-th reading made during one call of \<open>score\<close>.
  The scorer is returned with the evicted windows.
\<close>

definition score_git :: "(nat \<Rightarrow> real) \<Rightarrow> WorkflowEvent \<Rightarrow> ConfidenceScorer \<Rightarrow> real \<times> ConfidenceScorer" where
  "score_git clk event s =
     (let base = 0.6 in
      if truthy (task_id event) then
        (let s1 = s\<lparr> recent_tasks := evict (clk 0) TASK_PROXIMITY_SECS (recent_tasks s) \<rparr>
         in if list_ex (\<lambda>(_, tid). Some tid = task_id event) (recent_tasks s1)
            then (min 1.0 (base + TASK_CONTEXT_BONUS), s1)
            else (let s2 = s1\<lparr> recent_tasks := evict (clk 1) TASK_PROXIMITY_SECS (recent_tasks s1) \<rparr>
                  in (min 1.0 (if recent_tasks s2 \<noteq> [] then base + 0.1 else base), s2)))
      else
        (let s2 = s\<lparr> recent_tasks := evict (clk 0) TASK_PROXIMITY_SECS (recent_tasks s) \<rparr>
         in (min 1.0 (if recent_tasks s2 \<noteq> [] then base + 0.1 else base), s2)))"

definition score_copilot :: "(nat \<Rightarrow> real) \<Rightarrow> WorkflowEvent \<Rightarrow> ConfidenceScorer \<Rightarrow> real \<times> ConfidenceScorer" where
  "score_copilot clk event s =
     (let score0 = BASE;
          score1 = (if truthy (burst_id event) then score0 + BURST_BONUS else score0);
          s1 = s\<lparr> recent_fs := evict (clk 0) FS_PROXIMITY_SECS (recent_fs s) \<rparr>;
          score2 = (if recent_fs s1 \<noteq> [] then score1 + FS_PROXIMITY_BONUS else score1);
          s2 = s1\<lparr> recent_git := evict (clk 1) GIT_PROXIMITY_SECS (recent_git s1) \<rparr>;
          score3 = (if recent_git s2 \<noteq> [] then score2 + GIT_PROXIMITY_BONUS else score2)
      in if truthy (task_id event) then (min 1.0 (score3 + TASK_CONTEXT_BONUS), s2)
         else (let s3 = s2\<lparr> recent_tasks := evict (clk 2) TASK_PROXIMITY_SECS (recent_tasks s2) \<rparr>
               in (min 1.0 (if recent_tasks s3 \<noteq> [] then score3 + TASK_CONTEXT_BONUS * 0.5 else score3),
                   s3)))"

definition score_filesystem ::
  "(nat \<Rightarrow> real) \<Rightarrow> WorkflowEvent \<Rightarrow> ConfidenceScorer \<Rightarrow> real \<times> ConfidenceScorer" where
  "score_filesystem clk event s =
     (let base0 = 0.4;
          s1 = s\<lparr> recent_tasks := evict (clk 0) TASK_PROXIMITY_SECS (recent_tasks s) \<rparr>;
          base1 = (if recent_tasks s1 \<noteq> [] then base0 + 0.2 else base0);
          s2 = s1\<lparr> recent_git := evict (clk 1) GIT_PROXIMITY_SECS (recent_git s1) \<rparr>;
          base2 = (if recent_git s2 \<noteq> [] then base1 + 0.1 else base1)
      in (min 1.0 base2, s2))"

definition score :: "(nat \<Rightarrow> real) \<Rightarrow> WorkflowEvent \<Rightarrow> ConfidenceScorer \<Rightarrow> real \<times> ConfidenceScorer" where
  "score clk event s =
     (if source event = ''antigravity'' then (score_antigravity event, s)
      else if source event = ''git'' then score_git clk event s
      else if source event = ''copilot'' then score_copilot clk event s
      else if source event = ''filesystem'' then score_filesystem clk event s
      else (confidence event, s))"

text \<open>\<open>score_and_record\<close>: the clock readings of the scoring, then the one of the recording.\<close>

definition score_and_record ::
  "(nat \<Rightarrow> real) \<Rightarrow> real \<Rightarrow> WorkflowEvent \<Rightarrow> ConfidenceScorer \<Rightarrow> WorkflowEvent \<times> ConfidenceScorer" where
  "score_and_record clk now event s =
     (case score clk event s of
        (c, s1) \<Rightarrow> (let event' = event\<lparr> confidence := c \<rparr>
                    in (event', record_signal now event' s1)))"

text \<open>\<open>record_signal\<close> for a list of events with their clock readings, oldest first.\<close>

fun record_signals :: "(real \<times> WorkflowEvent) list \<Rightarrow> ConfidenceScorer \<Rightarrow> ConfidenceScorer" where
  "record_signals [] s = s"
| "record_signals ((now, event) # sigs) s = record_signals sigs (record_signal now event s)"


section \<open>Temporal correlator (correlator.py)\<close>

record TemporalCorrelator =
  TASK_COMMIT_WINDOW :: real
  CLUSTER_WINDOW :: real
  tasks :: "(real \<times> WorkflowEvent) list"
  commits :: "(real \<times> WorkflowEvent) list"
  fs_events :: "(real \<times> WorkflowEvent) list"
  copilot_events :: "(real \<times> WorkflowEvent) list"

abbreviation MAX_EVENTS :: nat where "MAX_EVENTS \<equiv> 200"

definition TemporalCorrelator_init :: "real \<Rightarrow> real \<Rightarrow> TemporalCorrelator" where
  "TemporalCorrelator_init task_commit_window cluster_window =
     \<lparr> TASK_COMMIT_WINDOW = task_commit_window, CLUSTER_WINDOW = cluster_window,
       tasks = [], commits = [], fs_events = [], copilot_events = [] \<rparr>"

definition evict_all :: "real \<Rightarrow> real \<Rightarrow> TemporalCorrelator \<Rightarrow> TemporalCorrelator" where
  "evict_all now max_age s =
     s\<lparr> tasks := evict now max_age (tasks s), commits := evict now max_age (commits s),
        fs_events := evict now max_age (fs_events s),
        copilot_events := evict now max_age (copilot_events s) \<rparr>"

text \<open>Append, then drop the oldest entry when the window has grown past \<open>MAX_EVENTS\<close>.\<close>

definition append_capped :: "'a list \<Rightarrow> 'a \<Rightarrow> 'a list" where
  "append_capped w entry = (let w' = w @ [entry] in if length w' > MAX_EVENTS then tl w' else w')"

definition record_event :: "real \<Rightarrow> WorkflowEvent \<Rightarrow> TemporalCorrelator \<Rightarrow> TemporalCorrelator" where
  "record_event now event s =
     (let entry = (now, event) in
      if source event = ''antigravity'' \<and> truthy (task_id event) then
        s\<lparr> tasks := append_capped (tasks s) entry \<rparr>
      else if source event = ''git'' then
        s\<lparr> commits := append_capped (commits s) entry \<rparr>
      else if source event = ''filesystem'' then
        s\<lparr> fs_events := append_capped (fs_events s) entry \<rparr>
      else if source event = ''copilot'' then
        s\<lparr> copilot_events := append_capped (copilot_events s) entry \<rparr>
      else s)"

datatype py_error = IndexError

text \<open>\<open>window[-1]\<close>: raises on an empty window.\<close>

fun last_entry :: "'a list \<Rightarrow> py_error + 'a" where
  "last_entry [] = Inl IndexError"
| "last_entry (x # xs) = Inr (last (x # xs))"

text \<open>\<open>{f.path for f in files}\<close> of a file list that has been tested to be true.\<close>

fun path_set :: "FileChange list option \<Rightarrow> string set" where
  "path_set None = {}"
| "path_set (Some fs) = set (map path fs)"

text \<open>
  The strategies of \<open>_correlate_commit\<close>. Each scan goes over the task window
  most recent first and stops at the first hit.
\<close>

definition same_task_id :: "WorkflowEvent \<Rightarrow> WorkflowEvent \<Rightarrow> bool" where
  "same_task_id commit task_ev = (task_id task_ev = task_id commit)"

definition shares_file :: "WorkflowEvent \<Rightarrow> WorkflowEvent \<Rightarrow> bool" where
  "shares_file commit task_ev =
     (truthy (files_changed task_ev) \<and>
      path_set (files_changed commit) \<inter> path_set (files_changed task_ev) \<noteq> {})"

definition task_match :: "WorkflowEvent \<Rightarrow> (real \<times> WorkflowEvent) list \<Rightarrow> WorkflowEvent option" where
  "task_match commit w =
     (if truthy (task_id commit)
      then find (same_task_id commit) (rev (map snd w))
      else None)"

definition file_overlap :: "WorkflowEvent \<Rightarrow> (real \<times> WorkflowEvent) list \<Rightarrow> WorkflowEvent option" where
  "file_overlap commit w =
     (if truthy (files_changed commit)
      then find (shares_file commit) (rev (map snd w))
      else None)"

definition select_task ::
  "WorkflowEvent \<Rightarrow> (real \<times> WorkflowEvent) list \<Rightarrow> py_error + (WorkflowEvent \<times> string)" where
  "select_task commit w =
     (case task_match commit w of
        Some t \<Rightarrow> Inr (t, ''task_match'')
      | None \<Rightarrow>
          (case file_overlap commit w of
             Some t \<Rightarrow> Inr (t, ''file_overlap'')
           | None \<Rightarrow>
               (case last_entry w of
                  Inl err \<Rightarrow> Inl err
                | Inr (_, t) \<Rightarrow> Inr (t, ''time_proximity''))))"

definition link_confidence :: "string \<Rightarrow> real" where
  "link_confidence correlation_ty =
     (if correlation_ty = ''task_match'' then 1.0
      else if correlation_ty = ''file_overlap'' then 0.8
      else if correlation_ty = ''time_proximity'' then 0.5
      else 0.3)"

definition linked_event :: "string \<Rightarrow> WorkflowEvent \<Rightarrow> WorkflowEvent \<Rightarrow> string \<Rightarrow> WorkflowEvent" where
  "linked_event uid commit best_task best_type =
     (make_event uid ''git'' GIT_COMMIT_LINKED)
       \<lparr> task_id := task_id best_task, task_title := task_title best_task,
         git_commit_sha := git_commit_sha commit, git_branch := git_branch commit,
         correlation_type := Some best_type,
         correlated_events := Some [event_id commit, event_id best_task],
         confidence := link_confidence best_type \<rparr>"

definition annotate_commit :: "WorkflowEvent \<Rightarrow> WorkflowEvent \<Rightarrow> string \<Rightarrow> WorkflowEvent" where
  "annotate_commit commit best_task best_type =
     commit\<lparr> task_id := task_id best_task, task_title := task_title best_task,
             correlation_type := Some best_type,
             correlated_events := Some [event_id best_task] \<rparr>"

text \<open>
  \<open>_correlate_commit\<close> returns the derived link event (or nothing), the commit as
  annotated in place, and the correlator with the evicted task window.
\<close>

definition correlate_commit ::
  "real \<Rightarrow> string \<Rightarrow> WorkflowEvent \<Rightarrow> TemporalCorrelator
     \<Rightarrow> py_error + (WorkflowEvent option \<times> WorkflowEvent \<times> TemporalCorrelator)" where
  "correlate_commit now uid commit s =
     (let s1 = s\<lparr> tasks := evict now (TASK_COMMIT_WINDOW s) (tasks s) \<rparr>
      in if tasks s1 = [] then Inr (None, commit, s1)
         else (case select_task commit (tasks s1) of
                 Inl err \<Rightarrow> Inl err
               | Inr (best_task, best_type) \<Rightarrow>
                   Inr (Some (linked_event uid commit best_task best_type),
                        annotate_commit commit best_task best_type, s1)))"

definition cluster_events :: "TemporalCorrelator \<Rightarrow> WorkflowEvent list" where
  "cluster_events s = map snd (tasks s @ commits s @ fs_events s @ copilot_events s)"

definition cluster_event :: "string \<Rightarrow> string list \<Rightarrow> WorkflowEvent" where
  "cluster_event uid event_ids =
     (make_event uid ''agent'' WORKFLOW_ACTIVITY_CLUSTERED)
       \<lparr> correlated_events := Some (take 50 event_ids),
         correlation_type := Some ''temporal_cluster'',
         confidence := 0.7 \<rparr>"

definition check_cluster ::
  "real \<Rightarrow> string \<Rightarrow> WorkflowEvent \<Rightarrow> TemporalCorrelator
     \<Rightarrow> WorkflowEvent option \<times> TemporalCorrelator" where
  "check_cluster now uid trigger s =
     (let s1 = evict_all now (CLUSTER_WINDOW s) s;
          sources = set (map source (cluster_events s1));
          event_ids = map event_id (cluster_events s1)
      in if card sources < 3 then (None, s1)
         else if source trigger \<notin> sources then (None, s1)
         else (Some (cluster_event uid event_ids), s1))"

fun opt_list :: "'a option \<Rightarrow> 'a list" where
  "opt_list None = []"
| "opt_list (Some x) = [x]"

text \<open>
  \<open>correlate\<close>: \<open>clk k\<close> is the \<open>k\<close>-th clock reading of the call; the linking step
  takes one reading only when the event is a commit. The result is the list of derived
  events, the event as annotated in place, and the correlator.
\<close>

definition correlate ::
  "(nat \<Rightarrow> real) \<Rightarrow> string \<Rightarrow> string \<Rightarrow> WorkflowEvent \<Rightarrow> TemporalCorrelator
     \<Rightarrow> py_error + (WorkflowEvent list \<times> WorkflowEvent \<times> TemporalCorrelator)" where
  "correlate clk uid_link uid_cluster event s =
     (if event_type event = GIT_COMMIT then
        (case correlate_commit (clk 0) uid_link event s of
           Inl err \<Rightarrow> Inl err
         | Inr (linked, event1, s1) \<Rightarrow>
             (case check_cluster (clk 1) uid_cluster event1 s1 of
                (cluster, s2) \<Rightarrow> Inr (opt_list linked @ opt_list cluster, event1, s2)))
      else
        (case check_cluster (clk 0) uid_cluster event s of
           (cluster, s2) \<Rightarrow> Inr (opt_list cluster, event, s2)))"


section \<open>Scenario helpers (tests)\<close>

text \<open>\<open>_make_completion\<close> of tests/test\_burst.py: a completion event with token counts.\<close>

definition make_completion :: "string \<Rightarrow> int \<Rightarrow> int \<Rightarrow> WorkflowEvent" where
  "make_completion uid tp tc =
     (make_event uid ''copilot'' COPILOT_COMPLETION)
       \<lparr> tokens_prompt := Some tp, tokens_completion := Some tc \<rparr>"


text \<open>
  The burst scenario of the tests: three completions of 10+10 tokens, one second apart,
  each with the fresh ids its call would mint.
\<close>

definition burst_scenario :: "(real \<times> string \<times> string \<times> WorkflowEvent) list" where
  "burst_scenario =
     [(1, ''b1'', ''u1'', make_completion ''e1'' 10 10),
      (2, ''b2'', ''u2'', make_completion ''e2'' 10 10),
      (3, ''b3'', ''u3'', make_completion ''e3'' 10 10)]"


text \<open>A clock that returns the same reading at every call of one operation.\<close>

definition clock_at :: "real \<Rightarrow> nat \<Rightarrow> real" where
  "clock_at t k = t"

text \<open>A planning-task event carrying a task id, as the tests build it.\<close>

definition make_task :: "string \<Rightarrow> string \<Rightarrow> string \<Rightarrow> WorkflowEvent" where
  "make_task uid ety tid = (make_event uid ''antigravity'' ety)\<lparr> task_id := Some tid \<rparr>"


text \<open>
  The derived events of kind activity-clustered in a result of \<open>correlate\<close>, as the
  correlator tests select them.
\<close>

definition clustered :: "WorkflowEvent list \<Rightarrow> WorkflowEvent list" where
  "clustered derived = filter (\<lambda>d. event_type d = WORKFLOW_ACTIVITY_CLUSTERED) derived"

text \<open>
  Events of the correlator tests: two planning tasks (the second with a changed file),
  a commit that names the first task and touches the file of the second, a filesystem
  batch event, a bare commit, and correlators holding two and three sources.
\<close>

definition task_a :: WorkflowEvent where
  "task_a = make_task ''ta'' AG_TASK_COMPLETED ''guid-1''"

definition task_b :: WorkflowEvent where
  "task_b = (make_task ''tb'' AG_TASK_COMPLETED ''guid-2'')
      \<lparr> files_changed := Some [\<lparr> path = ''src/auth.py'', change_type = ''modified'', size_bytes = None \<rparr>] \<rparr>"

definition commit_ab :: WorkflowEvent where
  "commit_ab = (make_event ''c1'' ''git'' GIT_COMMIT)
      \<lparr> task_id := Some ''guid-1'',
        files_changed := Some [\<lparr> path = ''src/auth.py'', change_type = ''modified'', size_bytes = None \<rparr>] \<rparr>"

definition fs_1 :: WorkflowEvent where
  "fs_1 = make_event ''f1'' ''filesystem'' FS_BATCH_MODIFIED"

definition commit_1 :: WorkflowEvent where
  "commit_1 = make_event ''c9'' ''git'' GIT_COMMIT"


definition corr_three :: TemporalCorrelator where
  "corr_three = record_event 3 commit_1 (record_event 2 fs_1
                  (record_event 1 task_a (TemporalCorrelator_init 300 180)))"



section \<open>Completion burst detector: state and window agree\<close>

lemma observe_transition_config:
  "observe_transition now bid uid d = (out, d') \<Longrightarrow>
     cb_window d' = cb_window d \<and> cb_window_secs d' = cb_window_secs d \<and>
     cb_token_threshold d' = cb_token_threshold d \<and> cb_count_threshold d' = cb_count_threshold d"
  by (auto simp: observe_transition_def Let_def split: if_splits)

lemma observe_transition_burst:
  "observe_transition now bid uid d = (out, d') \<Longrightarrow>
     is_in_burst d' =
       (window_tokens (cb_window d) \<ge> cb_token_threshold d \<or>
        window_count (cb_window d) \<ge> cb_count_threshold d)"
  by (auto simp: observe_transition_def is_in_burst_def Let_def split: if_splits)

lemma observe_transition_emitted:
  "observe_transition now bid uid d = (out, d') \<Longrightarrow>
     map event_type out =
       (if \<not> is_in_burst d \<and> is_in_burst d' then [COPILOT_BURST_START]
        else if is_in_burst d \<and> \<not> is_in_burst d' then [COPILOT_BURST_END]
        else [])"
  by (auto simp: observe_transition_def is_in_burst_def Let_def burst_start_event_def
      burst_end_event_def make_event_def split: if_splits)

lemma CopilotBurst_observe_step:
  assumes "CopilotBurst_observe now bid uid event d = (out, event', d')"
  shows "cb_token_threshold d' = cb_token_threshold d"
    and "cb_count_threshold d' = cb_count_threshold d"
    and "cb_window_secs d' = cb_window_secs d"
    and "cb_window d' = evict now (cb_window_secs d)
           (cb_window d @
             [(now, or0 (tokens_prompt event), or0 (tokens_completion event), event_id event)])"
    and "is_in_burst d' =
       (window_tokens (cb_window d') \<ge> cb_token_threshold d \<or>
        window_count (cb_window d') \<ge> cb_count_threshold d)"
    and "map event_type out =
       (if \<not> is_in_burst d \<and> is_in_burst d' then [COPILOT_BURST_START]
        else if is_in_burst d \<and> \<not> is_in_burst d' then [COPILOT_BURST_END]
        else [])"
proof -
  let ?d1 = "d\<lparr> cb_window := evict now (cb_window_secs d)
     (cb_window d @
       [(now, or0 (tokens_prompt event), or0 (tokens_completion event), event_id event)]) \<rparr>"
  from assms have t: "observe_transition now bid uid ?d1 = (out, d')"
    by (auto simp: CopilotBurst_observe_def Let_def split: prod.splits)
  from observe_transition_config[OF t]
  show "cb_token_threshold d' = cb_token_threshold d"
    and "cb_count_threshold d' = cb_count_threshold d"
    and "cb_window_secs d' = cb_window_secs d"
    and w: "cb_window d' = evict now (cb_window_secs d)
           (cb_window d @
             [(now, or0 (tokens_prompt event), or0 (tokens_completion event), event_id event)])"
    by simp_all
  from observe_transition_burst[OF t] w
  show "is_in_burst d' =
       (window_tokens (cb_window d') \<ge> cb_token_threshold d \<or>
        window_count (cb_window d') \<ge> cb_count_threshold d)"
    by simp
  have "is_in_burst ?d1 = is_in_burst d" by (simp add: is_in_burst_def)
  with observe_transition_emitted[OF t]
  show "map event_type out =
       (if \<not> is_in_burst d \<and> is_in_burst d' then [COPILOT_BURST_START]
        else if is_in_burst d \<and> \<not> is_in_burst d' then [COPILOT_BURST_END]
        else [])" by simp
qed

text \<open>
  Claim C1. For every sequence of completion events fed to \<open>observe\<close>, starting from any
  detector, after each call the detector is in a burst exactly when the token total of
  the current window is at least the token threshold or the number of window entries is
  at least the count threshold. A call that moves the detector from idle to in-burst
  returns exactly one event, a burst-start; a call that moves it from in-burst to idle
  returns exactly one event, a burst-end; every other call returns no event.
\<close>

theorem C1_burst_state_tracks_window:
  "\<forall>(d0, emitted, d1) \<in> set (CopilotBurst_trace ins d).
      (is_in_burst d1 \<longleftrightarrow>
         window_tokens (cb_window d1) \<ge> cb_token_threshold d \<or>
         window_count (cb_window d1) \<ge> cb_count_threshold d)
    \<and> map event_type emitted =
        (if \<not> is_in_burst d0 \<and> is_in_burst d1 then [COPILOT_BURST_START]
         else if is_in_burst d0 \<and> \<not> is_in_burst d1 then [COPILOT_BURST_END]
         else [])"
proof (induction ins arbitrary: d)
  case Nil
  show ?case by simp
next
  case (Cons a ins)
  obtain now bid uid event where a: "a = (now, bid, uid, event)" by (cases a) auto
  obtain out event' d' where o: "CopilotBurst_observe now bid uid event d = (out, event', d')"
    by (cases "CopilotBurst_observe now bid uid event d") auto
  note st = CopilotBurst_observe_step[OF o]
  from Cons.IH[of d'] st(1,2) st(5) st(6) show ?case
    by (simp add: a o)
qed

text \<open>
  The run of the burst tests, extended by a fourth completion that arrives after the
  window has emptied: the third call enters the burst, the fourth leaves it.
\<close>

theorem C1_burst_state_tracks_window_witness:
  "map (\<lambda>(d0, emitted, d1).
          (is_in_burst d0, map event_type emitted, is_in_burst d1,
           window_tokens (cb_window d1), window_count (cb_window d1)))
     (CopilotBurst_trace (burst_scenario @ [(200, ''b4'', ''u4'', make_completion ''e4'' 10 10)])
        (CopilotBurstDetector_init 120 99999 3))
   = [(False, [], False, 20, 1), (False, [], False, 40, 2),
      (False, [COPILOT_BURST_START], True, 60, 3),
      (True, [COPILOT_BURST_END], False, 20, 1)]"
  using C1_burst_state_tracks_window
          [of "burst_scenario @ [(200, ''b4'', ''u4'', make_completion ''e4'' 10 10)]"
              "CopilotBurstDetector_init 120 99999 3"]
  by (simp add: burst_scenario_def CopilotBurst_observe_def observe_transition_def
      make_completion_def make_event_def CopilotBurstDetector_init_def window_tokens_def
      window_count_def is_in_burst_def Let_def burst_start_event_def burst_end_event_def)


section \<open>File burst detector\<close>

lemma evict_length_le: "length (evict now a w) \<le> length w"
  by (induction w) (auto simp: le_SucI)


lemma evict_sorted_filter:
  "sorted (map fst w) \<Longrightarrow> evict now a w = filter (\<lambda>(t, x). now - t \<le> a) w"
proof (induction w)
  case Nil
  show ?case by simp
next
  case (Cons e w)
  obtain t x where e: "e = (t, x)" by (cases e)
  show ?case
  proof (cases "now - t > a")
    case True
    with Cons e show ?thesis by simp
  next
    case False
    from Cons.prems e have "\<forall>u \<in> set w. t \<le> fst u" by auto
    with False have "\<forall>u \<in> set w. now - fst u \<le> a" by fastforce
    then have "filter (\<lambda>(t, x). now - t \<le> a) w = w"
      by (auto simp: filter_id_conv)
    with False e show ?thesis by simp
  qed
qed

lemma FileBurst_run_quiet:
  "int (length (fb_recent d)) + int (length obs) < fb_threshold d \<Longrightarrow>
     \<forall>r \<in> set (fst (FileBurst_run obs d)). r = None"
proof (induction obs arbitrary: d)
  case Nil
  show ?case by simp
next
  case (Cons ob obs)
  obtain now uid p ws where ob: "ob = (now, uid, p, ws)" by (cases ob) auto
  let ?q = "evict now (fb_window_secs d) (fb_recent d @ [(now, p)])"
  have len: "length ?q \<le> length (fb_recent d) + 1"
    using evict_length_le[of now "fb_window_secs d" "fb_recent d @ [(now, p)]"] by simp
  with Cons.prems have nofire: "\<not> fb_threshold d \<le> int (length ?q)" by simp
  then have step: "FileBurst_observe now uid p ws d = (None, d\<lparr>fb_recent := ?q\<rparr>)"
    by (simp add: FileBurst_observe_def Let_def)
  from len Cons.prems
  have "int (length (fb_recent (d\<lparr>fb_recent := ?q\<rparr>))) + int (length obs)
          < fb_threshold (d\<lparr>fb_recent := ?q\<rparr>)" by simp
  from Cons.IH[OF this] step ob show ?case
    by (simp split: prod.splits)
qed

text \<open>
  Claim C6. \<open>FileBurstDetector.observe\<close> appends the observation and evicts from the
  front every entry strictly older than the window; it fires exactly when the number of
  entries then queued is at least the threshold. When it fires it returns one
  filesystem-batch-modified event with confidence 0.4 that carries every queued path,
  and empties the queue; otherwise it returns nothing and keeps the evicted queue.
  With clock readings that never decrease, the queue after eviction is exactly the
  entries whose age is at most the window. From an empty queue (as left by a fire),
  fewer than threshold further observations never fire, so no entry is counted twice.
\<close>

theorem C6_file_burst_fires_at_threshold:
  "(fst (FileBurst_observe now uid p ws d) \<noteq> None \<longleftrightarrow>
      fb_threshold d \<le> int (length (evict now (fb_window_secs d) (fb_recent d @ [(now, p)]))))
   \<and> (fb_threshold d \<le> int (length (evict now (fb_window_secs d) (fb_recent d @ [(now, p)]))) \<longrightarrow>
        FileBurst_observe now uid p ws d =
          (Some (fb_event uid ws
                   (map snd (evict now (fb_window_secs d) (fb_recent d @ [(now, p)])))),
           d\<lparr>fb_recent := []\<rparr>))
   \<and> (\<not> fb_threshold d \<le> int (length (evict now (fb_window_secs d) (fb_recent d @ [(now, p)]))) \<longrightarrow>
        FileBurst_observe now uid p ws d =
          (None, d\<lparr>fb_recent := evict now (fb_window_secs d) (fb_recent d @ [(now, p)])\<rparr>))
   \<and> event_type (fb_event uid ws paths) = FS_BATCH_MODIFIED
   \<and> confidence (fb_event uid ws paths) = 0.4
   \<and> map_option (map path) (files_changed (fb_event uid ws paths)) = Some paths
   \<and> (sorted (map fst (fb_recent d)) \<and> (\<forall>t \<in> set (map fst (fb_recent d)). t \<le> now) \<longrightarrow>
        evict now (fb_window_secs d) (fb_recent d @ [(now, p)]) =
          filter (\<lambda>(t, _). now - t \<le> fb_window_secs d) (fb_recent d @ [(now, p)]))
   \<and> (fb_recent d = [] \<and> int (length obs) < fb_threshold d \<longrightarrow>
        (\<forall>r \<in> set (fst (FileBurst_run obs d)). r = None))"
proof -
  have a: "sorted (map fst (fb_recent d)) \<and> (\<forall>t \<in> set (map fst (fb_recent d)). t \<le> now) \<longrightarrow>
        evict now (fb_window_secs d) (fb_recent d @ [(now, p)]) =
          filter (\<lambda>(t, _). now - t \<le> fb_window_secs d) (fb_recent d @ [(now, p)])"
  proof
    assume h: "sorted (map fst (fb_recent d)) \<and> (\<forall>t \<in> set (map fst (fb_recent d)). t \<le> now)"
    then have "sorted (map fst (fb_recent d @ [(now, p)]))"
      by (auto simp: sorted_append)
    from evict_sorted_filter[OF this]
    show "evict now (fb_window_secs d) (fb_recent d @ [(now, p)]) =
          filter (\<lambda>(t, _). now - t \<le> fb_window_secs d) (fb_recent d @ [(now, p)])" .
  qed
  have b: "fb_recent d = [] \<and> int (length obs) < fb_threshold d \<longrightarrow>
        (\<forall>r \<in> set (fst (FileBurst_run obs d)). r = None)"
    using FileBurst_run_quiet[of d obs] by simp
  have c: "map_option (map path) (files_changed (fb_event uid ws paths)) = Some paths"
    by (simp add: fb_event_def make_event_def comp_def)
  have e: "event_type (fb_event uid ws paths) = FS_BATCH_MODIFIED"
    "confidence (fb_event uid ws paths) = 0.4"
    by (simp_all add: fb_event_def make_event_def)
  show ?thesis using a b c e
    by (simp add: FileBurst_observe_def Let_def)
qed

text \<open>
  The scenario of the tests: \<open>a.py\<close>, \<open>b.py\<close>, \<open>c.py\<close> within the 5 second window and
  threshold 3 fire once with all three paths; two further observations do not fire.
\<close>

theorem C6_file_burst_fires_at_threshold_witness:
  "FileBurst_observe 3 ''u3'' ''c.py'' ''/ws''
      \<lparr> fb_window_secs = 5, fb_threshold = 3, fb_recent = [(1, ''a.py''), (2, ''b.py'')] \<rparr>
     = (Some (fb_event ''u3'' ''/ws'' [''a.py'', ''b.py'', ''c.py'']),
        \<lparr> fb_window_secs = 5, fb_threshold = 3, fb_recent = [] \<rparr>)
   \<and> fst (FileBurst_run [(4, ''u4'', ''d.py'', ''/ws''), (4, ''u5'', ''e.py'', ''/ws'')]
            \<lparr> fb_window_secs = 5, fb_threshold = 3, fb_recent = [] \<rparr>) = [None, None]
   \<and> evict 10 5 [(1, ''a.py''), (2, ''b.py''), (6, ''c.py''), (10 :: real, ''d.py'')]
       = [(6, ''c.py''), (10, ''d.py'')]"
  using C6_file_burst_fires_at_threshold
          [of 3 "''u3''" "''c.py''" "''/ws''"
              "\<lparr> fb_window_secs = 5, fb_threshold = 3, fb_recent = [(1, ''a.py''), (2, ''b.py'')] \<rparr>"
              "[]" "[]"]
        C6_file_burst_fires_at_threshold
          [of 4 "''u4''" "''d.py''" "''/ws''"
              "\<lparr> fb_window_secs = 5, fb_threshold = 3, fb_recent = [] \<rparr>"
              "[]" "[(4, ''u4'', ''d.py'', ''/ws''), (4, ''u5'', ''e.py'', ''/ws'')]"]
  by (simp add: FileBurst_observe_def Let_def)

section \<open>Completion burst detector: flush\<close>

text \<open>
  Claim C7. \<open>flush\<close> on an idle detector returns nothing and changes nothing. In the
  scenario of three completions of 10+10 tokens with count threshold 3 and token
  threshold 99999, the third \<open>observe\<close> returns a burst-start and an immediate
  \<open>flush\<close> returns a burst-end, after which the detector is idle with its burst id and
  start time unset. The running token total and the running entry count are not reset
  by \<open>flush\<close>: they still hold 60 and 3, whereas the burst-end branch of \<open>observe\<close>
  sets both to 0.
\<close>

theorem C7_flush_leaves_running_totals:
  "(case last (CopilotBurst_trace burst_scenario (CopilotBurstDetector_init 120 99999 3)) of
      (d2, emitted, d3) \<Rightarrow>
        (case CopilotBurst_flush 3 3 ''u4'' d3 of
           (r, d4) \<Rightarrow>
             map event_type emitted = [COPILOT_BURST_START] \<and> is_in_burst d3
             \<and> map_option event_type r = Some COPILOT_BURST_END
             \<and> \<not> is_in_burst d4 \<and> cb_active_burst_id d4 = None
             \<and> cb_burst_start_time d4 = None
             \<and> cb_burst_token_total d4 = 60 \<and> cb_burst_entry_count d4 = 3))
   \<and> CopilotBurst_flush 3 3 ''u4'' (CopilotBurstDetector_init 120 99999 3)
       = (None, CopilotBurstDetector_init 120 99999 3)"
  by (simp add: burst_scenario_def CopilotBurst_observe_def observe_transition_def
      make_completion_def make_event_def CopilotBurstDetector_init_def window_tokens_def
      window_count_def is_in_burst_def Let_def burst_start_event_def burst_end_event_def
      CopilotBurst_flush_def)


section \<open>Confidence scorer\<close>

lemma score_antigravity_range: "0 \<le> score_antigravity e \<and> score_antigravity e \<le> 1"
  by (simp add: score_antigravity_def)

lemma score_git_range: "0 \<le> fst (score_git clk e s) \<and> fst (score_git clk e s) \<le> 1"
  by (simp add: score_git_def Let_def)

lemma score_copilot_value:
  "fst (score_copilot clk e s) =
     0.2 + (if truthy (burst_id e) then 0.2 else 0)
         + (if evict (clk 0) FS_PROXIMITY_SECS (recent_fs s) \<noteq> [] then 0.2 else 0)
         + (if evict (clk 1) GIT_PROXIMITY_SECS (recent_git s) \<noteq> [] then 0.2 else 0)
         + (if truthy (task_id e) then 0.2
            else if evict (clk 2) TASK_PROXIMITY_SECS (recent_tasks s) \<noteq> [] then 0.1 else 0)"
  by (simp add: score_copilot_def Let_def)

lemma score_copilot_range:
  "0 \<le> fst (score_copilot clk e s) \<and> fst (score_copilot clk e s) \<le> 1"
  unfolding score_copilot_value by simp

lemma score_filesystem_range:
  "0 \<le> fst (score_filesystem clk e s) \<and> fst (score_filesystem clk e s) \<le> 1"
  by (simp add: score_filesystem_def Let_def)

text \<open>
  Claim C3. For every event of the event model, that is, one whose carried confidence
  lies between 0 and 1, and for every state of the recency windows, whatever signals
  have been recorded into them, \<open>score\<close> returns a value between 0 and 1. For the
  four scored sources (antigravity, git, copilot, filesystem) this holds whatever the
  event carries: each of these rules ends within the interval. The rule for any other
  source passes the carried confidence through.
\<close>

theorem C3_score_in_unit_interval:
  "(0 \<le> confidence e \<and> confidence e \<le> 1 \<longrightarrow>
      0 \<le> fst (score clk e (record_signals sigs s)) \<and>
      fst (score clk e (record_signals sigs s)) \<le> 1)
   \<and> (source e \<in> {''antigravity'', ''git'', ''copilot'', ''filesystem''} \<longrightarrow>
      0 \<le> fst (score clk e (record_signals sigs s)) \<and>
      fst (score clk e (record_signals sigs s)) \<le> 1)"
  using score_antigravity_range[of e] score_git_range[of clk e "record_signals sigs s"]
    score_copilot_range[of clk e "record_signals sigs s"]
    score_filesystem_range[of clk e "record_signals sigs s"]
  by (auto simp: score_def)

text \<open>
  Redundant signals (two filesystem, two commit and two task signals) and a completion
  with burst id and task id: the score is exactly 1. A derived event keeps its 0.7.
\<close>

theorem C3_score_in_unit_interval_witness:
  "fst (score (clock_at 7)
          ((make_completion ''c1'' 10 10)\<lparr> burst_id := Some ''b'', task_id := Some ''t1'' \<rparr>)
          (record_signals
             [(1, make_event ''f1'' ''filesystem'' FS_BATCH_MODIFIED),
              (2, make_event ''g1'' ''git'' GIT_COMMIT),
              (3, make_task ''a1'' AG_TASK_COMPLETED ''t1''),
              (4, make_event ''f2'' ''filesystem'' FS_BATCH_MODIFIED),
              (5, make_event ''g2'' ''git'' GIT_COMMIT),
              (6, make_task ''a2'' AG_TASK_COMPLETED ''t1'')]
             ConfidenceScorer_init)) = 1
   \<and> fst (score (clock_at 0)
         ((make_event ''e1'' ''agent'' WORKFLOW_ACTIVITY_CLUSTERED)\<lparr> confidence := 0.7 \<rparr>)
         (record_signals [] ConfidenceScorer_init)) = 0.7
   \<and> 0 \<le> confidence ((make_event ''e1'' ''agent'' WORKFLOW_ACTIVITY_CLUSTERED)\<lparr> confidence := 0.7 \<rparr>)
   \<and> confidence ((make_event ''e1'' ''agent'' WORKFLOW_ACTIVITY_CLUSTERED)\<lparr> confidence := 0.7 \<rparr>) \<le> 1
   \<and> confidence ((make_completion ''c1'' 10 10)\<lparr> burst_id := Some ''b'', task_id := Some ''t1'' \<rparr>) = 0"
  using C3_score_in_unit_interval
          [of "(make_completion ''c1'' 10 10)\<lparr> burst_id := Some ''b'', task_id := Some ''t1'' \<rparr>"
              "clock_at 7"
              "[(1, make_event ''f1'' ''filesystem'' FS_BATCH_MODIFIED),
                (2, make_event ''g1'' ''git'' GIT_COMMIT),
                (3, make_task ''a1'' AG_TASK_COMPLETED ''t1''),
                (4, make_event ''f2'' ''filesystem'' FS_BATCH_MODIFIED),
                (5, make_event ''g2'' ''git'' GIT_COMMIT),
                (6, make_task ''a2'' AG_TASK_COMPLETED ''t1'')]"
              ConfidenceScorer_init]
        C3_score_in_unit_interval
          [of "(make_event ''e1'' ''agent'' WORKFLOW_ACTIVITY_CLUSTERED)\<lparr> confidence := 0.7 \<rparr>"
              "clock_at 0" "[]" ConfidenceScorer_init]
  by (simp add: score_def score_copilot_def make_completion_def make_event_def make_task_def
      record_signal_def ConfidenceScorer_init_def clock_at_def Let_def)

text \<open>
  Claim C4. An event of source copilot is scored 0.2, plus 0.2 if it carries a burst id,
  plus 0.2 if the filesystem window is non-empty after eviction, plus 0.2 if the commit
  window is non-empty after eviction, plus 0.2 if it carries a task id and otherwise
  plus 0.1 if the task window is non-empty after eviction. A completion with a burst id
  scored against empty windows gets 0.4; the same completion with its own task id,
  scored after a filesystem signal and a commit signal have been recorded, gets 1.0.
\<close>

theorem C4_copilot_rule:
  "(source e = ''copilot'' \<longrightarrow>
      fst (score clk e s) =
        0.2 + (if truthy (burst_id e) then 0.2 else 0)
            + (if evict (clk 0) FS_PROXIMITY_SECS (recent_fs s) \<noteq> [] then 0.2 else 0)
            + (if evict (clk 1) GIT_PROXIMITY_SECS (recent_git s) \<noteq> [] then 0.2 else 0)
            + (if truthy (task_id e) then 0.2
               else if evict (clk 2) TASK_PROXIMITY_SECS (recent_tasks s) \<noteq> [] then 0.1
               else 0))
   \<and> fst (score (clock_at 0) ((make_completion ''c1'' 10 10)\<lparr> burst_id := Some ''burst-001'' \<rparr>)
            ConfidenceScorer_init) = 0.4
   \<and> fst (score (clock_at 3)
            ((make_completion ''c1'' 10 10)
               \<lparr> burst_id := Some ''burst-001'', task_id := Some ''guid-1'' \<rparr>)
            (record_signals
               [(1, make_event ''f1'' ''filesystem'' FS_BATCH_MODIFIED),
                (2, make_event ''g1'' ''git'' GIT_COMMIT)]
               ConfidenceScorer_init)) = 1.0"
proof -
  have a: "source e = ''copilot'' \<longrightarrow>
      fst (score clk e s) =
        0.2 + (if truthy (burst_id e) then 0.2 else 0)
            + (if evict (clk 0) FS_PROXIMITY_SECS (recent_fs s) \<noteq> [] then 0.2 else 0)
            + (if evict (clk 1) GIT_PROXIMITY_SECS (recent_git s) \<noteq> [] then 0.2 else 0)
            + (if truthy (task_id e) then 0.2
               else if evict (clk 2) TASK_PROXIMITY_SECS (recent_tasks s) \<noteq> [] then 0.1
               else 0)"
    using score_copilot_value[of clk e s] by (simp add: score_def)
  have b: "fst (score (clock_at 0) ((make_completion ''c1'' 10 10)\<lparr> burst_id := Some ''burst-001'' \<rparr>)
            ConfidenceScorer_init) = 0.4"
    by (simp add: score_def score_copilot_def make_completion_def make_event_def
      ConfidenceScorer_init_def Let_def)
  have c: "fst (score (clock_at 3)
            ((make_completion ''c1'' 10 10)
               \<lparr> burst_id := Some ''burst-001'', task_id := Some ''guid-1'' \<rparr>)
            (record_signals
               [(1, make_event ''f1'' ''filesystem'' FS_BATCH_MODIFIED),
                (2, make_event ''g1'' ''git'' GIT_COMMIT)]
               ConfidenceScorer_init)) = 1.0"
    by (simp add: score_def score_copilot_def make_completion_def make_event_def
      record_signal_def ConfidenceScorer_init_def clock_at_def Let_def)
  from a b c show ?thesis by blast
qed

text \<open>
  A plain completion after a filesystem signal and a task signal: 0.2 + 0.2 + 0.1.
\<close>

theorem C4_copilot_rule_witness:
  "fst (score (clock_at 3) ((make_completion ''c2'' 10 10))
            (record_signals
               [(1, make_event ''f1'' ''filesystem'' FS_BATCH_MODIFIED),
                (2, make_task ''a1'' AG_TASK_CREATED ''guid-1'')]
               ConfidenceScorer_init)) = 0.5"
  using C4_copilot_rule
          [of "make_completion ''c2'' 10 10" "clock_at 3"
              "record_signals
               [(1, make_event ''f1'' ''filesystem'' FS_BATCH_MODIFIED),
                (2, make_task ''a1'' AG_TASK_CREATED ''guid-1'')]
               ConfidenceScorer_init"]
  by (simp add: make_completion_def make_event_def make_task_def
      record_signal_def ConfidenceScorer_init_def clock_at_def)

lemma score_init:
  "fst (score clk e ConfidenceScorer_init) =
     (if source e = ''antigravity'' then score_antigravity e
      else if source e = ''git'' then 0.6
      else if source e = ''copilot'' then
        0.2 + (if truthy (burst_id e) then 0.2 else 0) + (if truthy (task_id e) then 0.2 else 0)
      else if source e = ''filesystem'' then 0.4
      else confidence e)"
  by (simp add: score_def score_git_def score_copilot_def score_filesystem_def
      ConfidenceScorer_init_def Let_def)

text \<open>
  Claim C8. \<open>score_and_record\<close> returns the event with its confidence set to the score
  computed on the windows as they were before the call, and records that event into
  the windows left by the scoring. Hence the confidence never contains a bonus from the
  event's own window entry: on a scorer with empty windows the confidence is the value
  of the source's rule without any window bonus.
\<close>

theorem C8_score_before_record:
  "score_and_record clk now e s =
     (e\<lparr> confidence := fst (score clk e s) \<rparr>,
      record_signal now (e\<lparr> confidence := fst (score clk e s) \<rparr>) (snd (score clk e s)))
   \<and> confidence (fst (score_and_record clk now e ConfidenceScorer_init)) =
       (if source e = ''antigravity'' then score_antigravity e
        else if source e = ''git'' then 0.6
        else if source e = ''copilot'' then
          0.2 + (if truthy (burst_id e) then 0.2 else 0) + (if truthy (task_id e) then 0.2 else 0)
        else if source e = ''filesystem'' then 0.4
        else confidence e)"
proof -
  have a: "score_and_record clk now e s =
     (e\<lparr> confidence := fst (score clk e s) \<rparr>,
      record_signal now (e\<lparr> confidence := fst (score clk e s) \<rparr>) (snd (score clk e s)))"
    by (simp add: score_and_record_def Let_def split: prod.splits)
  have "confidence (fst (score_and_record clk now e ConfidenceScorer_init)) =
          fst (score clk e ConfidenceScorer_init)"
    by (simp add: score_and_record_def Let_def split: prod.splits)
  with a score_init[of clk e] show ?thesis by simp
qed

text \<open>
  An event of source copilot and kind \<open>git.commit\<close> is recorded into the commit window,
  which the copilot rule reads. \<open>score_and_record\<close> gives it 0.2; scoring it after it
  has been recorded would give 0.4.
\<close>

theorem C8_score_before_record_witness:
  "confidence (fst (score_and_record (clock_at 1) 1
                      (make_event ''x1'' ''copilot'' GIT_COMMIT) ConfidenceScorer_init)) = 0.2
   \<and> recent_git (snd (score_and_record (clock_at 1) 1
                      (make_event ''x1'' ''copilot'' GIT_COMMIT) ConfidenceScorer_init))
       = [(1, ''x1'')]
   \<and> fst (score (clock_at 1) (make_event ''x1'' ''copilot'' GIT_COMMIT)
            (record_signal 1 (make_event ''x1'' ''copilot'' GIT_COMMIT) ConfidenceScorer_init))
       = 0.4"
  using C8_score_before_record
          [of "clock_at 1" 1 "make_event ''x1'' ''copilot'' GIT_COMMIT" ConfidenceScorer_init]
  by (simp add: score_def score_copilot_def make_event_def record_signal_def
      ConfidenceScorer_init_def clock_at_def Let_def)


section \<open>Temporal correlator: commit linking\<close>

lemma find_rev_last:
  "find P (rev xs) = (if filter P xs = [] then None else Some (last (filter P xs)))"
  by (induction xs rule: rev_induct) auto

lemma last_entry_nonempty: "w \<noteq> [] \<Longrightarrow> last_entry w = Inr (last w)"
  by (cases w) auto

lemma task_match_eq:
  "task_match commit w =
     (if truthy (task_id commit) \<and> filter (same_task_id commit) (map snd w) \<noteq> []
      then Some (last (filter (same_task_id commit) (map snd w))) else None)"
  by (simp add: task_match_def find_rev_last)

lemma file_overlap_eq:
  "file_overlap commit w =
     (if truthy (files_changed commit) \<and> filter (shares_file commit) (map snd w) \<noteq> []
      then Some (last (filter (shares_file commit) (map snd w))) else None)"
  by (simp add: file_overlap_def find_rev_last)

lemma select_task_eq:
  "w \<noteq> [] \<Longrightarrow>
   select_task commit w =
     (if truthy (task_id commit) \<and> filter (same_task_id commit) (map snd w) \<noteq> []
      then Inr (last (filter (same_task_id commit) (map snd w)), ''task_match'')
      else if truthy (files_changed commit) \<and> filter (shares_file commit) (map snd w) \<noteq> []
      then Inr (last (filter (shares_file commit) (map snd w)), ''file_overlap'')
      else Inr (snd (last w), ''time_proximity''))"
  by (simp add: select_task_def task_match_eq file_overlap_eq last_entry_nonempty
      split: prod.splits)

lemma correlate_commit_eq:
  "correlate_commit now uid commit s =
     (let w = evict now (TASK_COMMIT_WINDOW s) (tasks s) in
      if w = [] then Inr (None, commit, s\<lparr>tasks := w\<rparr>)
      else if truthy (task_id commit) \<and> filter (same_task_id commit) (map snd w) \<noteq> []
      then Inr (Some (linked_event uid commit
                        (last (filter (same_task_id commit) (map snd w))) ''task_match''),
                annotate_commit commit
                  (last (filter (same_task_id commit) (map snd w))) ''task_match'',
                s\<lparr>tasks := w\<rparr>)
      else if truthy (files_changed commit) \<and> filter (shares_file commit) (map snd w) \<noteq> []
      then Inr (Some (linked_event uid commit
                        (last (filter (shares_file commit) (map snd w))) ''file_overlap''),
                annotate_commit commit
                  (last (filter (shares_file commit) (map snd w))) ''file_overlap'',
                s\<lparr>tasks := w\<rparr>)
      else Inr (Some (linked_event uid commit (snd (last w)) ''time_proximity''),
                annotate_commit commit (snd (last w)) ''time_proximity'',
                s\<lparr>tasks := w\<rparr>))"
  by (simp add: correlate_commit_def Let_def select_task_eq)

text \<open>
  Claim C2. \<open>_correlate_commit\<close> first evicts the task window to its horizon and
  returns nothing when the window is then empty. Otherwise: if the commit carries a
  task id and some task in the window has the same id, the link is to the most recent
  such task, by task match, with confidence 1.0, whatever the files are; else if the
  commit has changed files and some task in the window shares a file with it, the link
  is to the most recent such task, by file overlap, with confidence 0.8; else the link
  is to the most recent task of the window, by time proximity, with confidence 0.5.
\<close>

theorem C2_commit_link_precedence:
  assumes "w = evict now (TASK_COMMIT_WINDOW s) (tasks s)"
  shows
  "(w = [] \<longrightarrow> correlate_commit now uid commit s = Inr (None, commit, s\<lparr>tasks := w\<rparr>))
   \<and> (w \<noteq> [] \<and> truthy (task_id commit) \<and> filter (same_task_id commit) (map snd w) \<noteq> [] \<longrightarrow>
        correlate_commit now uid commit s =
          Inr (Some (linked_event uid commit
                       (last (filter (same_task_id commit) (map snd w))) ''task_match''),
               annotate_commit commit
                 (last (filter (same_task_id commit) (map snd w))) ''task_match'',
               s\<lparr>tasks := w\<rparr>))
   \<and> (w \<noteq> [] \<and> \<not> (truthy (task_id commit) \<and> filter (same_task_id commit) (map snd w) \<noteq> [])
        \<and> truthy (files_changed commit) \<and> filter (shares_file commit) (map snd w) \<noteq> [] \<longrightarrow>
        correlate_commit now uid commit s =
          Inr (Some (linked_event uid commit
                       (last (filter (shares_file commit) (map snd w))) ''file_overlap''),
               annotate_commit commit
                 (last (filter (shares_file commit) (map snd w))) ''file_overlap'',
               s\<lparr>tasks := w\<rparr>))
   \<and> (w \<noteq> [] \<and> \<not> (truthy (task_id commit) \<and> filter (same_task_id commit) (map snd w) \<noteq> [])
        \<and> \<not> (truthy (files_changed commit) \<and> filter (shares_file commit) (map snd w) \<noteq> []) \<longrightarrow>
        correlate_commit now uid commit s =
          Inr (Some (linked_event uid commit (snd (last w)) ''time_proximity''),
               annotate_commit commit (snd (last w)) ''time_proximity'',
               s\<lparr>tasks := w\<rparr>))
   \<and> confidence (linked_event uid commit t ''task_match'') = 1.0
   \<and> confidence (linked_event uid commit t ''file_overlap'') = 0.8
   \<and> confidence (linked_event uid commit t ''time_proximity'') = 0.5
   \<and> correlation_type (linked_event uid commit t ty) = Some ty
   \<and> event_type (linked_event uid commit t ty) = GIT_COMMIT_LINKED"
proof -
  have ev: "confidence (linked_event uid commit t ''task_match'') = 1.0"
    "confidence (linked_event uid commit t ''file_overlap'') = 0.8"
    "confidence (linked_event uid commit t ''time_proximity'') = 0.5"
    "correlation_type (linked_event uid commit t ty) = Some ty"
    "event_type (linked_event uid commit t ty) = GIT_COMMIT_LINKED"
    by (simp_all add: linked_event_def link_confidence_def make_event_def)
  show ?thesis
    unfolding correlate_commit_eq[of now uid commit s] assms[symmetric] Let_def
    using ev by simp
qed

text \<open>
  A commit that names the older task and shares a file with the newer one links to the
  older task by task match.
\<close>

theorem C2_commit_link_precedence_witness:
  "shares_file commit_ab task_b
   \<and> correlate_commit 20 ''l1'' commit_ab
       ((TemporalCorrelator_init 300 180)\<lparr> tasks := [(10, task_a), (11, task_b)] \<rparr>)
     = Inr (Some (linked_event ''l1'' commit_ab task_a ''task_match''),
            annotate_commit commit_ab task_a ''task_match'',
            (TemporalCorrelator_init 300 180)\<lparr> tasks := [(10, task_a), (11, task_b)] \<rparr>)
   \<and> confidence (linked_event ''l1'' commit_ab task_a ''task_match'') = 1"
proof -
  let ?s = "(TemporalCorrelator_init 300 180)\<lparr> tasks := [(10, task_a), (11, task_b)] \<rparr>"
  have w: "[(10, task_a), (11, task_b)] = evict 20 (TASK_COMMIT_WINDOW ?s) (tasks ?s)"
    by (simp add: TemporalCorrelator_init_def)
  have m: "same_task_id commit_ab task_a" "\<not> same_task_id commit_ab task_b"
    "truthy (task_id commit_ab)"
    by (simp_all add: same_task_id_def commit_ab_def task_a_def task_b_def make_task_def
        make_event_def)
  have sf: "shares_file commit_ab task_b"
    by (simp add: shares_file_def commit_ab_def task_b_def make_task_def make_event_def)
  from C2_commit_link_precedence[OF w, of "''l1''" commit_ab task_a] m sf
  show ?thesis by (simp add: TemporalCorrelator_init_def)
qed

section \<open>Temporal correlator: cluster detection\<close>

lemma check_cluster_eq:
  "check_cluster now uid trigger s =
     (if 3 \<le> card (set (map source (cluster_events (evict_all now (CLUSTER_WINDOW s) s)))) \<and>
         source trigger \<in> set (map source (cluster_events (evict_all now (CLUSTER_WINDOW s) s)))
      then (Some (cluster_event uid
                    (map event_id (cluster_events (evict_all now (CLUSTER_WINDOW s) s)))),
            evict_all now (CLUSTER_WINDOW s) s)
      else (None, evict_all now (CLUSTER_WINDOW s) s))"
  by (auto simp: check_cluster_def Let_def)

lemma cluster_event_fields:
  "confidence (cluster_event uid ids) = 0.7"
  "event_type (cluster_event uid ids) = WORKFLOW_ACTIVITY_CLUSTERED"
  "source (cluster_event uid ids) = ''agent''"
  "correlated_events (cluster_event uid ids) = Some (take 50 ids)"
  by (simp_all add: cluster_event_def make_event_def)

lemma correlate_commit_shape:
  "\<exists>linked event1.
     correlate_commit now uid commit s =
       Inr (linked, event1, s\<lparr>tasks := evict now (TASK_COMMIT_WINDOW s) (tasks s)\<rparr>)
     \<and> source event1 = source commit
     \<and> (\<forall>l. linked = Some l \<longrightarrow> event_type l = GIT_COMMIT_LINKED)"
  by (simp add: correlate_commit_eq Let_def annotate_commit_def linked_event_def make_event_def)

lemma clustered_opt_cluster:
  "clustered (opt_list (fst (check_cluster now u e t))) = opt_list (fst (check_cluster now u e t))"
  by (simp add: check_cluster_eq clustered_def cluster_event_fields)

lemma clustered_append: "clustered (xs @ ys) = clustered xs @ clustered ys"
  by (simp add: clustered_def)

lemma correlate_clusters:
  "\<exists>derived event1 s2.
     correlate clk uid_link uid_cluster event s = Inr (derived, event1, s2)
     \<and> clustered derived =
         opt_list (fst (check_cluster (clk (if event_type event = GIT_COMMIT then 1 else 0))
           uid_cluster event
           (if event_type event = GIT_COMMIT
            then s\<lparr>tasks := evict (clk 0) (TASK_COMMIT_WINDOW s) (tasks s)\<rparr> else s)))"
proof (cases "event_type event = GIT_COMMIT")
  case True
  let ?s1 = "s\<lparr>tasks := evict (clk 0) (TASK_COMMIT_WINDOW s) (tasks s)\<rparr>"
  from correlate_commit_shape[of "clk 0" uid_link event s]
  obtain linked event1 where
    cc: "correlate_commit (clk 0) uid_link event s = Inr (linked, event1, ?s1)"
    and src: "source event1 = source event"
    and ty: "\<forall>l. linked = Some l \<longrightarrow> event_type l = GIT_COMMIT_LINKED"
    by blast
  from ty have nl: "clustered (opt_list linked) = []"
    by (cases linked) (auto simp: clustered_def)
  have same: "check_cluster (clk 1) uid_cluster event1 ?s1
            = check_cluster (clk 1) uid_cluster event ?s1"
    using src by (simp add: check_cluster_eq)
  obtain cluster s2 where ck: "check_cluster (clk 1) uid_cluster event ?s1 = (cluster, s2)"
    by (cases "check_cluster (clk 1) uid_cluster event ?s1") auto
  from clustered_opt_cluster[of "clk 1" uid_cluster event ?s1] ck
  have clc: "clustered (opt_list cluster) = opt_list cluster" by simp
  have co: "correlate clk uid_link uid_cluster event s
              = Inr (opt_list linked @ opt_list cluster, event1, s2)"
    using True cc same ck by (simp add: correlate_def)
  have "clustered (opt_list linked @ opt_list cluster) = opt_list cluster"
    using nl clc by (simp add: clustered_append)
  with co ck True show ?thesis by simp
next
  case False
  obtain cluster s2 where ck: "check_cluster (clk 0) uid_cluster event s = (cluster, s2)"
    by (cases "check_cluster (clk 0) uid_cluster event s") auto
  from clustered_opt_cluster[of "clk 0" uid_cluster event s] ck
  have clc: "clustered (opt_list cluster) = opt_list cluster" by simp
  have co: "correlate clk uid_link uid_cluster event s = Inr (opt_list cluster, event, s2)"
    using False ck by (simp add: correlate_def)
  with clc ck False show ?thesis by simp
qed





lemma corr_three_eq:
  "corr_three = (TemporalCorrelator_init 300 180)
      \<lparr> tasks := [(1, task_a)], commits := [(3, commit_1)], fs_events := [(2, fs_1)] \<rparr>"
  by (simp add: corr_three_def record_event_def append_capped_def task_a_def commit_1_def
      fs_1_def make_task_def make_event_def TemporalCorrelator_init_def Let_def)





section \<open>Absent optional fields\<close>

lemma observe_tokens_absent:
  "CopilotBurst_observe now bid uid (e\<lparr> tokens_prompt := None, tokens_completion := None \<rparr>) d
     = (case CopilotBurst_observe now bid uid
               (e\<lparr> tokens_prompt := Some 0, tokens_completion := Some 0 \<rparr>) d of
          (emitted, e', d') \<Rightarrow>
            (emitted, e'\<lparr> tokens_prompt := None, tokens_completion := None \<rparr>, d'))"
  by (simp add: CopilotBurst_observe_def annotate_def Let_def split: prod.splits)

lemma correlate_commit_total: "\<exists>r. correlate_commit now uid commit s = Inr r"
  using correlate_commit_shape[of now uid commit s] by blast

lemma correlate_total: "\<exists>r. correlate clk u1 u2 event s = Inr r"
  using correlate_clusters[of clk u1 u2 event s] by blast

lemma no_files_no_overlap:
  assumes "\<not> truthy (files_changed commit)"
    and "correlate_commit now uid commit s = Inr (Some l, c', s')"
  shows "correlation_type l \<noteq> Some ''file_overlap''"
  using assms
  by (auto simp: correlate_commit_eq Let_def linked_event_def make_event_def split: if_splits)

text \<open>
  Claim C9. A completion whose token counts are both absent is processed by the burst
  detector exactly as one whose counts are both zero: same derived events, same
  detector, same annotation. A commit without a file list never matches by file
  overlap. The lookup of the most recent task, the one indexing operation of the
  correlator that could raise, never does: \<open>_correlate_commit\<close> and \<open>correlate\<close>
  return a result for every event and every correlator. The other operations contain no
  operation that can raise on an absent field and are total functions of the model.
\<close>

theorem C9_absent_optional_fields:
  "CopilotBurst_observe now bid uid (e\<lparr> tokens_prompt := None, tokens_completion := None \<rparr>) d
     = (case CopilotBurst_observe now bid uid
               (e\<lparr> tokens_prompt := Some 0, tokens_completion := Some 0 \<rparr>) d of
          (emitted, e', d') \<Rightarrow>
            (emitted, e'\<lparr> tokens_prompt := None, tokens_completion := None \<rparr>, d'))
   \<and> (files_changed commit = None \<longrightarrow> file_overlap commit w = None)
   \<and> (files_changed commit = None \<longrightarrow>
        (\<forall>l c' s'. correlate_commit t uid_link commit s = Inr (Some l, c', s') \<longrightarrow>
           correlation_type l \<noteq> Some ''file_overlap''))
   \<and> (\<exists>r. correlate_commit t uid_link commit s = Inr r)
   \<and> (\<exists>r. correlate clk uid_link uid_cluster event s = Inr r)"
proof -
  have a: "files_changed commit = None \<longrightarrow> file_overlap commit w = None"
    by (simp add: file_overlap_def)
  have b: "files_changed commit = None \<longrightarrow>
        (\<forall>l c' s'. correlate_commit t uid_link commit s = Inr (Some l, c', s') \<longrightarrow>
           correlation_type l \<noteq> Some ''file_overlap'')"
    using no_files_no_overlap[of commit t uid_link s] by auto
  from observe_tokens_absent[of now bid uid e d] a b
    correlate_commit_total[of t uid_link commit s] correlate_total[of clk uid_link uid_cluster event s]
  show ?thesis by blast
qed

text \<open>
  A commit with no task id and no file list, with one task in the window, links by
  time proximity at confidence 0.5; a completion without token counts enters the burst
  window with counts 0 and 0.
\<close>

theorem C9_absent_optional_fields_witness:
  "correlate_commit 20 ''l1'' commit_1
       ((TemporalCorrelator_init 300 180)\<lparr> tasks := [(11, task_b)] \<rparr>)
     = Inr (Some (linked_event ''l1'' commit_1 task_b ''time_proximity''),
            annotate_commit commit_1 task_b ''time_proximity'',
            (TemporalCorrelator_init 300 180)\<lparr> tasks := [(11, task_b)] \<rparr>)
   \<and> correlation_type (linked_event ''l1'' commit_1 task_b ''time_proximity'')
       \<noteq> Some ''file_overlap''
   \<and> confidence (linked_event ''l1'' commit_1 task_b ''time_proximity'') = 0.5
   \<and> cb_window (snd (snd (CopilotBurst_observe 1 ''b1'' ''u1''
                              (make_event ''e1'' ''copilot'' COPILOT_COMPLETION)
                              (CopilotBurstDetector_init 120 500 5))))
       = [(1, 0, 0, ''e1'')]"
proof -
  let ?s = "(TemporalCorrelator_init 300 180)\<lparr> tasks := [(11, task_b)] \<rparr>"
  have f: "files_changed commit_1 = None" "task_id commit_1 = None"
    by (simp_all add: commit_1_def make_event_def)
  have cc: "correlate_commit 20 ''l1'' commit_1 ?s
     = Inr (Some (linked_event ''l1'' commit_1 task_b ''time_proximity''),
            annotate_commit commit_1 task_b ''time_proximity'', ?s)"
    using f by (simp add: correlate_commit_eq Let_def TemporalCorrelator_init_def)
  from C9_absent_optional_fields
         [where commit = commit_1 and t = 20 and uid_link = "''l1''" and s = ?s]
       f cc
  have nt: "correlation_type (linked_event ''l1'' commit_1 task_b ''time_proximity'')
       \<noteq> Some ''file_overlap''" by blast
  have cf: "confidence (linked_event ''l1'' commit_1 task_b ''time_proximity'') = 0.5"
    by (simp add: linked_event_def link_confidence_def)
  have ob: "cb_window (snd (snd (CopilotBurst_observe 1 ''b1'' ''u1''
                              (make_event ''e1'' ''copilot'' COPILOT_COMPLETION)
                              (CopilotBurstDetector_init 120 500 5))))
       = [(1, 0, 0, ''e1'')]"
    by (simp add: CopilotBurst_observe_def observe_transition_def make_event_def
        CopilotBurstDetector_init_def window_tokens_def window_count_def Let_def)
  from cc nt cf ob show ?thesis by blast
qed

section \<open>Temporal correlator: events that are not recorded\<close>

text \<open>
  Claim C10. \<open>record\<close> of an event whose source is none of antigravity, git, filesystem
  and copilot, or of an antigravity event without a task id, returns the correlator
  unchanged; commit linking and cluster detection therefore behave as if the event had
  never been recorded.
\<close>

theorem C10_record_ignores_other_events:
  "(source e \<notin> {''antigravity'', ''git'', ''filesystem'', ''copilot''}
      \<or> (source e = ''antigravity'' \<and> \<not> truthy (task_id e)) \<longrightarrow>
     record_event now e s = s
     \<and> correlate_commit t uid commit (record_event now e s) = correlate_commit t uid commit s
     \<and> check_cluster t uid trigger (record_event now e s) = check_cluster t uid trigger s
     \<and> cluster_events (record_event now e s) = cluster_events s)"
proof -
  have "source e \<notin> {''antigravity'', ''git'', ''filesystem'', ''copilot''}
      \<or> (source e = ''antigravity'' \<and> \<not> truthy (task_id e)) \<longrightarrow> record_event now e s = s"
    by (auto simp: record_event_def Let_def)
  then show ?thesis by auto
qed

text \<open>
  A cluster event (source \<open>agent\<close>) and a planning event without task id leave a
  correlator with three recorded events as it is.
\<close>

theorem C10_record_ignores_other_events_witness:
  "record_event 5 (cluster_event ''k1'' [''ta'', ''c9'', ''f1'']) corr_three = corr_three
   \<and> record_event 5 (make_event ''a2'' ''antigravity'' AG_TASK_CREATED) corr_three = corr_three
   \<and> cluster_events corr_three = [task_a, commit_1, fs_1]"
proof -
  have s1: "source (cluster_event ''k1'' [''ta'', ''c9'', ''f1''])
              \<notin> {''antigravity'', ''git'', ''filesystem'', ''copilot''}"
    by (simp add: cluster_event_fields)
  have s2: "source (make_event ''a2'' ''antigravity'' AG_TASK_CREATED) = ''antigravity''
            \<and> \<not> truthy (task_id (make_event ''a2'' ''antigravity'' AG_TASK_CREATED))"
    by (simp add: make_event_def)
  have ce: "cluster_events corr_three = [task_a, commit_1, fs_1]"
    by (simp add: corr_three_eq cluster_events_def TemporalCorrelator_init_def)
  from C10_record_ignores_other_events
         [of "cluster_event ''k1'' [''ta'', ''c9'', ''f1'']" 5 corr_three]
       C10_record_ignores_other_events
         [of "make_event ''a2'' ''antigravity'' AG_TASK_CREATED" 5 corr_three]
       s1 s2 ce
  show ?thesis by blast
qed

end
